theory Spec2Isabelle
  imports Main
begin

section \<open>Python values, exceptions and the collection interface\<close>

text \<open>
  The index resolver of \<^verbatim>\<open>docarray/array/mixins/setitem.py\<close> dispatches on the run-time
  type of the index and of the value. The values that can reach it are modelled by one
  datatype:
  \<^item> \<open>PNpInt\<close> is a numpy integer scalar (an instance of \<^verbatim>\<open>np.generic\<close>, not of \<^verbatim>\<open>int\<close>);
  \<^item> \<open>PNdarray shape elems\<close> is a numpy array with the given shape, \<open>elems\<close> being its
    elements in row-major order as native scalars (what \<^verbatim>\<open>tolist\<close> yields for one dimension);
  \<^item> \<open>PDocArray\<close> is a \<^verbatim>\<open>DocumentArray\<close> (a \<^verbatim>\<open>MutableSequence\<close>, neither list nor tuple);
  \<^item> \<open>PDoc i attrs\<close> is a \<^verbatim>\<open>Document\<close> with identifier \<open>i\<close> and attribute values \<open>attrs\<close>;
  \<^item> \<open>POther tn\<close> is an object of any other class, named \<open>tn\<close>, with the default truth value,
    not a sequence and not iterable.
\<close>

datatype pyval =
    PNone
  | PBool bool
  | PInt int
  | PNpInt int
  | PStr string
  | PSlice "int option" "int option" "int option"
  | PEllipsis
  | PList "pyval list"
  | PTuple "pyval list"
  | PDocArray "pyval list"
  | PNdarray "nat list" "pyval list"
  | PDoc string "(string \<times> pyval) list"
  | POther string

text \<open>
  Exceptions are values. The constructors keep what the message of the source names:
  both lengths for the mask check, the dimension for an array index, the type name and the
  index for an unsupported index, the second selector for the two errors of a pair.
\<close>

datatype error =
    IndexError_out_of_range
  | IndexError_mask_length nat nat
  | IndexError_ndim nat
  | IndexError_unsupported string pyval
  | ValueError_not_id_nor_attr pyval
  | ValueError_not_attr pyval
  | ValueError_ambiguous_truth
  | ValueError_length nat nat
  | TypeError_no_len pyval
  | TypeError_not_iterable pyval
  | TypeError_concat pyval
  | AttributeError string
  | KeyError string
  | BackendError string

text \<open>
  A statement that mutates the collection either returns the new state (\<open>Inr\<close>) or raises:
  \<open>Inl (e, s)\<close> is the exception \<open>e\<close> leaving the collection in state \<open>s\<close>, so that what was
  written before the exception stays visible.
\<close>

type_synonym 's result = "(error \<times> 's) + 's"

subsection \<open>Python built-ins\<close>

fun is_bool :: "pyval \<Rightarrow> bool" where
  "is_bool (PBool b) = True"
| "is_bool v = False"

text \<open>\<^verbatim>\<open>isinstance(v, int)\<close>: \<^verbatim>\<open>bool\<close> is a subclass of \<^verbatim>\<open>int\<close>.\<close>

fun is_int :: "pyval \<Rightarrow> bool" where
  "is_int (PInt n) = True"
| "is_int (PBool b) = True"
| "is_int v = False"

text \<open>\<^verbatim>\<open>isinstance(v, (int, np.generic))\<close>.\<close>

fun is_int_or_generic :: "pyval \<Rightarrow> bool" where
  "is_int_or_generic (PNpInt n) = True"
| "is_int_or_generic v = is_int v"

text \<open>\<^verbatim>\<open>int(v)\<close> on the values that pass the test above.\<close>

fun to_int :: "pyval \<Rightarrow> int" where
  "to_int (PInt n) = n"
| "to_int (PNpInt n) = n"
| "to_int (PBool b) = (if b then 1 else 0)"
| "to_int v = 0"

fun is_str :: "pyval \<Rightarrow> bool" where
  "is_str (PStr x) = True"
| "is_str v = False"

fun str_of :: "pyval \<Rightarrow> string" where
  "str_of (PStr x) = x"
| "str_of v = []"

fun is_slice :: "pyval \<Rightarrow> bool" where
  "is_slice (PSlice a b c) = True"
| "is_slice v = False"

fun is_tuple :: "pyval \<Rightarrow> bool" where
  "is_tuple (PTuple xs) = True"
| "is_tuple v = False"

text \<open>\<^verbatim>\<open>isinstance(v, (list, tuple))\<close>.\<close>

fun is_list_or_tuple :: "pyval \<Rightarrow> bool" where
  "is_list_or_tuple (PList xs) = True"
| "is_list_or_tuple (PTuple xs) = True"
| "is_list_or_tuple v = False"

fun is_ndarray :: "pyval \<Rightarrow> bool" where
  "is_ndarray (PNdarray sh xs) = True"
| "is_ndarray v = False"

text \<open>
  \<^verbatim>\<open>isinstance(v, Sequence)\<close>: strings, lists, tuples and document arrays; a numpy array
  is not registered as a \<^verbatim>\<open>Sequence\<close>.
\<close>

fun is_sequence :: "pyval \<Rightarrow> bool" where
  "is_sequence (PStr x) = True"
| "is_sequence (PList xs) = True"
| "is_sequence (PTuple xs) = True"
| "is_sequence (PDocArray xs) = True"
| "is_sequence v = False"

text \<open>The elements of a sequence, in order; a string yields its characters as strings.\<close>

fun seq_items :: "pyval \<Rightarrow> pyval list" where
  "seq_items (PStr x) = map (\<lambda>c. PStr [c]) x"
| "seq_items (PList xs) = xs"
| "seq_items (PTuple xs) = xs"
| "seq_items (PDocArray xs) = xs"
| "seq_items v = []"

text \<open>\<^verbatim>\<open>len(v)\<close>: a value without \<^verbatim>\<open>__len__\<close> raises \<^verbatim>\<open>TypeError\<close>.\<close>

fun py_len :: "pyval \<Rightarrow> error + nat" where
  "py_len (PStr x) = Inr (length x)"
| "py_len (PList xs) = Inr (length xs)"
| "py_len (PTuple xs) = Inr (length xs)"
| "py_len (PDocArray xs) = Inr (length xs)"
| "py_len (PNdarray (n # sh) xs) = Inr n"
| "py_len v = Inl (TypeError_no_len v)"

text \<open>Cutting the row-major elements of an array into its rows.\<close>

fun rows :: "nat \<Rightarrow> nat \<Rightarrow> 'a list \<Rightarrow> 'a list list" where
  "rows 0 w xs = []"
| "rows (Suc n) w xs = take w xs # rows n w (drop w xs)"

text \<open>A native scalar as the numpy scalar that iterating over an array yields.\<close>

fun np_scalar :: "pyval \<Rightarrow> pyval" where
  "np_scalar (PInt n) = PNpInt n"
| "np_scalar v = POther ''numpy.generic''"

text \<open>\<^verbatim>\<open>iter(v)\<close>, run to the end: the items, or \<^verbatim>\<open>TypeError\<close> for a value that is not iterable.\<close>

fun py_iter :: "pyval \<Rightarrow> error + pyval list" where
  "py_iter (PStr x) = Inr (map (\<lambda>c. PStr [c]) x)"
| "py_iter (PList xs) = Inr xs"
| "py_iter (PTuple xs) = Inr xs"
| "py_iter (PDocArray xs) = Inr xs"
| "py_iter (PNdarray [n] xs) = Inr (map np_scalar (take n xs))"
| "py_iter (PNdarray (n # m # sh) xs) =
     Inr (map (PNdarray (m # sh)) (rows n (prod_list (m # sh)) xs))"
| "py_iter v = Inl (TypeError_not_iterable v)"

text \<open>
  \<^verbatim>\<open>bool(v)\<close>: empty containers, zero, \<^verbatim>\<open>None\<close> and \<^verbatim>\<open>False\<close> are false; a numpy array
  with more than one element has no truth value.
\<close>

fun py_bool :: "pyval \<Rightarrow> error + bool" where
  "py_bool PNone = Inr False"
| "py_bool (PBool b) = Inr b"
| "py_bool (PInt n) = Inr (n \<noteq> 0)"
| "py_bool (PNpInt n) = Inr (n \<noteq> 0)"
| "py_bool (PStr x) = Inr (x \<noteq> [])"
| "py_bool (PList xs) = Inr (xs \<noteq> [])"
| "py_bool (PTuple xs) = Inr (xs \<noteq> [])"
| "py_bool (PDocArray xs) = Inr (xs \<noteq> [])"
| "py_bool (PNdarray sh xs) =
     (case xs of [] \<Rightarrow> Inr False | [x] \<Rightarrow> py_bool x | _ \<Rightarrow> Inl ValueError_ambiguous_truth)"
| "py_bool v = Inr True"

text \<open>\<^verbatim>\<open>d.id\<close>.\<close>

fun doc_id :: "pyval \<Rightarrow> error + pyval" where
  "doc_id (PDoc i attrs) = Inr (PStr i)"
| "doc_id v = Inl (AttributeError ''id'')"

text \<open>
  Writing a key of an association list: in place when the key is there, at the end when
  it is new.
\<close>

fun upsert :: "'k \<Rightarrow> 'v \<Rightarrow> ('k \<times> 'v) list \<Rightarrow> ('k \<times> 'v) list" where
  "upsert k v [] = [(k, v)]"
| "upsert k v ((k', w) # rest) = (if k = k' then (k, v) # rest else (k', w) # upsert k v rest)"

text \<open>\<^verbatim>\<open>d.a = v\<close> on a document; the attribute \<^verbatim>\<open>id\<close> is its identifier.\<close>

fun set_attr :: "pyval \<Rightarrow> string \<Rightarrow> pyval \<Rightarrow> pyval" where
  "set_attr (PDoc i attrs) a v =
     (if a = ''id'' then PDoc (str_of v) attrs else PDoc i (upsert a v attrs))"
| "set_attr d a v = d"

text \<open>
  Modelled from the spec: \<^verbatim>\<open>helper.typename\<close>, which is not among the sources; the
  unsupported-index error names the observed type.
\<close>

fun typename :: "pyval \<Rightarrow> string" where
  "typename PNone = ''NoneType''"
| "typename (PBool b) = ''bool''"
| "typename (PInt n) = ''int''"
| "typename (PNpInt n) = ''numpy.int64''"
| "typename (PStr x) = ''str''"
| "typename (PSlice a b c) = ''slice''"
| "typename PEllipsis = ''ellipsis''"
| "typename (PList xs) = ''list''"
| "typename (PTuple xs) = ''tuple''"
| "typename (PDocArray xs) = ''DocumentArray''"
| "typename (PNdarray sh xs) = ''numpy.ndarray''"
| "typename (PDoc i attrs) = ''Document''"
| "typename (POther tn) = tn"

subsection \<open>The methods the mixin takes from the collection\<close>

text \<open>
  \<^verbatim>\<open>SetItemMixin\<close> is mixed into a collection class and calls methods that the storage
  backend and the other mixins define. They are the parameters of the model: a record of
  functions over the state \<open>'s\<close> of the collection. Getters read the state and return a
  value or raise; setters return a \<open>result\<close>.
  \<^item> \<open>len_self\<close>, \<open>iter_self\<close>, \<open>contains\<close>, \<open>getitem\<close>: \<^verbatim>\<open>len(self)\<close>, \<^verbatim>\<open>iter(self)\<close>,
    \<^verbatim>\<open>x in self\<close>, \<^verbatim>\<open>self[i]\<close>;
  \<^item> \<open>hasattr\<close>: \<^verbatim>\<open>hasattr(d, name)\<close>, which the class of the value \<open>d\<close> decides;
  \<^item> \<open>traverse_flat\<close>, \<open>flatten\<close>: the traversal of a path and the flattened collection;
  \<^item> \<open>set_doc_by_offset\<close>, \<open>set_doc_by_id\<close>, \<open>set_docs_by_slice\<close>,
    \<open>set_doc_value_pairs\<close>, \<open>set_doc_attr_by_id\<close>: the methods \<^verbatim>\<open>_set_doc_by_offset\<close>,
    \<^verbatim>\<open>_set_doc_by_id\<close>, \<^verbatim>\<open>_set_docs_by_slice\<close>, \<^verbatim>\<open>_set_doc_value_pairs\<close>,
    \<^verbatim>\<open>_set_doc_attr_by_id\<close>;
  \<^item> \<open>set_tensors\<close>, \<open>set_embeddings\<close>: the assignments \<^verbatim>\<open>_docs.tensors = v\<close> and
    \<^verbatim>\<open>_docs.embeddings = v\<close>, as the document array after the assignment.
\<close>

record 's ops =
  len_self :: "'s \<Rightarrow> nat"
  iter_self :: "'s \<Rightarrow> pyval list"
  contains :: "'s \<Rightarrow> pyval \<Rightarrow> bool"
  getitem :: "'s \<Rightarrow> pyval \<Rightarrow> error + pyval"
  hasattr :: "pyval \<Rightarrow> string \<Rightarrow> bool"
  traverse_flat :: "'s \<Rightarrow> string \<Rightarrow> error + pyval"
  flatten :: "'s \<Rightarrow> pyval"
  set_doc_by_offset :: "int \<Rightarrow> pyval \<Rightarrow> 's \<Rightarrow> 's result"
  set_doc_by_id :: "pyval \<Rightarrow> pyval \<Rightarrow> 's \<Rightarrow> 's result"
  set_docs_by_slice :: "pyval \<Rightarrow> pyval \<Rightarrow> 's \<Rightarrow> 's result"
  set_doc_value_pairs :: "pyval \<Rightarrow> pyval \<Rightarrow> 's \<Rightarrow> 's result"
  set_doc_attr_by_id :: "pyval \<Rightarrow> pyval \<Rightarrow> pyval \<Rightarrow> 's \<Rightarrow> 's result"
  set_tensors :: "pyval \<Rightarrow> pyval \<Rightarrow> error + pyval"
  set_embeddings :: "pyval \<Rightarrow> pyval \<Rightarrow> error + pyval"

text \<open>A \<^verbatim>\<open>for\<close> loop over statements that may raise: the first exception ends the loop.\<close>

fun for_each :: "('a \<Rightarrow> 's \<Rightarrow> 's result) \<Rightarrow> 'a list \<Rightarrow> 's \<Rightarrow> 's result" where
  "for_each f [] s = Inr s"
| "for_each f (x # xs) s = (case f x s of Inl e \<Rightarrow> Inl e | Inr s' \<Rightarrow> for_each f xs s')"

lemma for_each_cong [fundef_cong]:
  "xs = ys \<Longrightarrow> s = t \<Longrightarrow> (\<And>x u. x \<in> set ys \<Longrightarrow> f x u = g x u)
    \<Longrightarrow> for_each f xs s = for_each g ys t"
proof (induction ys arbitrary: xs s t)
  case Nil
  then show ?case by simp
next
  case (Cons y ys)
  then show ?case by (auto split: sum.splits)
qed

section \<open>The index resolver\<close>

subsection \<open>Boolean mask\<close>

text \<open>
  \<^verbatim>\<open>itertools.compress(data, selectors)\<close>: the items of \<open>data\<close> whose selector is true, in
  order, up to the shorter of the two.
\<close>

fun compress :: "pyval list \<Rightarrow> pyval list \<Rightarrow> error + pyval list" where
  "compress (d # ds) (m # ms) =
     (case py_bool m of
        Inl e \<Rightarrow> Inl e
      | Inr b \<Rightarrow>
          (case compress ds ms of
             Inl e \<Rightarrow> Inl e
           | Inr sel \<Rightarrow> Inr (if b then d # sel else sel)))"
| "compress ds ms = Inr []"

text \<open>
  \<^verbatim>\<open>_set_by_mask(mask, value)\<close>: the length check, then the documents selected by the mask
  go to \<^verbatim>\<open>_set_doc_value_pairs\<close>. The source hands over the iterator of
  \<^verbatim>\<open>compress\<close>; here it is run first, so an exception of the selection is raised before
  the callee starts, with the collection as it was.
\<close>

definition set_by_mask :: "'s ops \<Rightarrow> pyval \<Rightarrow> pyval \<Rightarrow> 's \<Rightarrow> 's result" where
  "set_by_mask ops msk val s =
     (case py_len msk of
        Inl e \<Rightarrow> Inl (e, s)
      | Inr n \<Rightarrow>
          if n \<noteq> len_self ops s then Inl (IndexError_mask_length (len_self ops s) n, s)
          else
            (case py_iter msk of
               Inl e \<Rightarrow> Inl (e, s)
             | Inr ms \<Rightarrow>
                 (case compress (iter_self ops s) ms of
                    Inl e \<Rightarrow> Inl (e, s)
                  | Inr sel \<Rightarrow> set_doc_value_pairs ops (PList sel) val s)))"

subsection \<open>Attributes of the selected documents\<close>

text \<open>\<^verbatim>\<open>for _d in _docs: self._set_doc_by_id(_d.id, _d)\<close>, one step.\<close>

definition persist_doc :: "'s ops \<Rightarrow> pyval \<Rightarrow> 's \<Rightarrow> 's result" where
  "persist_doc ops d s =
     (case doc_id d of Inl e \<Rightarrow> Inl (e, s) | Inr i \<Rightarrow> set_doc_by_id ops i d s)"

text \<open>\<^verbatim>\<open>self._set_doc_attr_by_id(_d.id, _a, _v)\<close>.\<close>

definition set_attr_of :: "'s ops \<Rightarrow> pyval \<Rightarrow> pyval \<Rightarrow> pyval \<Rightarrow> 's \<Rightarrow> 's result" where
  "set_attr_of ops a d v s =
     (case doc_id d of Inl e \<Rightarrow> Inl (e, s) | Inr i \<Rightarrow> set_doc_attr_by_id ops i a v s)"

text \<open>
  The loop \<^verbatim>\<open>for _a, _v in zip(attributes, value)\<close> of \<^verbatim>\<open>_set_docs_attributes\<close>. The two
  array attributes are written as one column on \<^verbatim>\<open>_docs\<close>, which the setter changes in
  place, and every document is stored again by its identifier; any other attribute is
  written document by document, one value for all when the value is not a list or tuple.
\<close>

fun attr_loop :: "'s ops \<Rightarrow> (pyval \<times> pyval) list \<Rightarrow> pyval \<Rightarrow> 's \<Rightarrow> 's result" where
  "attr_loop ops [] docs s = Inr s"
| "attr_loop ops ((a, v) # rest) docs s =
     (if a = PStr ''tensor'' \<or> a = PStr ''embedding'' then
        (case (if a = PStr ''tensor'' then set_tensors ops docs v
               else set_embeddings ops docs v) of
           Inl e \<Rightarrow> Inl (e, s)
         | Inr docs' \<Rightarrow>
             (case py_iter docs' of
                Inl e \<Rightarrow> Inl (e, s)
              | Inr ds \<Rightarrow>
                  (case for_each (persist_doc ops) ds s of
                     Inl e \<Rightarrow> Inl e
                   | Inr s' \<Rightarrow> attr_loop ops rest docs' s')))
      else
        (case py_iter docs of
           Inl e \<Rightarrow> Inl (e, s)
         | Inr ds \<Rightarrow>
             (case (if \<not> is_list_or_tuple v then for_each (\<lambda>d. set_attr_of ops a d v) ds s
                    else for_each (\<lambda>(d, vv). set_attr_of ops a d vv) (zip ds (seq_items v)) s) of
                Inl e \<Rightarrow> Inl e
              | Inr s' \<Rightarrow> attr_loop ops rest docs s')))"

text \<open>
  \<^verbatim>\<open>_set_docs_attributes(index, attributes, value)\<close>: a single attribute name becomes a
  one-element tuple; a list or tuple value none of whose elements is a list or tuple is
  wrapped once, a value that is no list or tuple is wrapped once; then the documents are
  read with \<^verbatim>\<open>self[index]\<close> and the function returns when they are empty.
\<close>

definition set_docs_attributes :: "'s ops \<Rightarrow> pyval \<Rightarrow> pyval \<Rightarrow> pyval \<Rightarrow> 's \<Rightarrow> 's result" where
  "set_docs_attributes ops index attributes val s =
     (let attributes1 = (if is_str attributes then PTuple [attributes] else attributes);
          val1 = (if is_list_or_tuple val \<and> \<not> list_ex is_list_or_tuple (seq_items val)
                  then PTuple [val] else val);
          val2 = (if \<not> is_list_or_tuple val1 then PTuple [val1] else val1)
      in case getitem ops s index of
           Inl e \<Rightarrow> Inl (e, s)
         | Inr docs \<Rightarrow>
             (case py_bool docs of
                Inl e \<Rightarrow> Inl (e, s)
              | Inr b \<Rightarrow>
                  if \<not> b then Inr s
                  else
                    (case py_iter attributes1 of
                       Inl e \<Rightarrow> Inl (e, s)
                     | Inr as \<Rightarrow> attr_loop ops (zip as (seq_items val2)) docs s)))"

subsection \<open>Paired selector\<close>

text \<open>\<^verbatim>\<open>isinstance(idx2, str) and hasattr(self[idx1], idx2)\<close>.\<close>

definition is_attr :: "'s ops \<Rightarrow> 's \<Rightarrow> pyval \<Rightarrow> pyval \<Rightarrow> error + bool" where
  "is_attr ops s idx1 idx2 =
     (if is_str idx2 then
        (case getitem ops s idx1 of
           Inl e \<Rightarrow> Inl e
         | Inr d \<Rightarrow> Inr (hasattr ops d (str_of idx2)))
      else Inr False)"

text \<open>\<^verbatim>\<open>all(hasattr(self[idx1], attr) for attr in idx2)\<close>, stopping at the first failure.\<close>

fun all_hasattr :: "'s ops \<Rightarrow> 's \<Rightarrow> pyval \<Rightarrow> pyval list \<Rightarrow> error + bool" where
  "all_hasattr ops s idx1 [] = Inr True"
| "all_hasattr ops s idx1 (a # as) =
     (case getitem ops s idx1 of
        Inl e \<Rightarrow> Inl e
      | Inr d \<Rightarrow> if hasattr ops d (str_of a) then all_hasattr ops s idx1 as else Inr False)"

text \<open>The test of the branch "second is a list of attributes".\<close>

definition is_attr_list :: "'s ops \<Rightarrow> 's \<Rightarrow> pyval \<Rightarrow> pyval \<Rightarrow> error + bool" where
  "is_attr_list ops s idx1 idx2 =
     (if is_sequence idx2 \<and> list_all is_str (seq_items idx2)
      then all_hasattr ops s idx1 (seq_items idx2)
      else Inr False)"

text \<open>\<^verbatim>\<open>self._set_doc_value_pairs((self[idx1], self[idx2]), value)\<close>.\<close>

definition set_two_docs :: "'s ops \<Rightarrow> pyval \<Rightarrow> pyval \<Rightarrow> pyval \<Rightarrow> 's \<Rightarrow> 's result" where
  "set_two_docs ops idx1 idx2 val s =
     (case getitem ops s idx1 of
        Inl e \<Rightarrow> Inl (e, s)
      | Inr d1 \<Rightarrow>
          (case getitem ops s idx2 of
             Inl e \<Rightarrow> Inl (e, s)
           | Inr d2 \<Rightarrow> set_doc_value_pairs ops (PTuple [d1, d2]) val s))"

text \<open>\<^verbatim>\<open>for attr, _v in zip(idx2, value): self._set_doc_attr_by_id(idx1, attr, _v)\<close>.\<close>

definition set_attrs_zip :: "'s ops \<Rightarrow> pyval \<Rightarrow> pyval \<Rightarrow> pyval \<Rightarrow> 's \<Rightarrow> 's result" where
  "set_attrs_zip ops idx1 idx2 val s =
     (case py_iter val of
        Inl e \<Rightarrow> Inl (e, s)
      | Inr vs \<Rightarrow>
          for_each (\<lambda>(attr, v). set_doc_attr_by_id ops idx1 attr v) (zip (seq_items idx2) vs) s)"

text \<open>
  The two branches of \<^verbatim>\<open>_set_by_pair\<close> for one selected document share their last three
  cases: an attribute name, a list of attribute names, or the \<^verbatim>\<open>ValueError\<close> of the branch.
\<close>

definition set_attr_or_fail ::
  "'s ops \<Rightarrow> (pyval \<Rightarrow> error) \<Rightarrow> pyval \<Rightarrow> pyval \<Rightarrow> pyval \<Rightarrow> 's \<Rightarrow> 's result" where
  "set_attr_or_fail ops err idx1 idx2 val s =
     (case is_attr ops s idx1 idx2 of
        Inl e \<Rightarrow> Inl (e, s)
      | Inr one \<Rightarrow>
          if one then set_doc_attr_by_id ops idx1 idx2 val s
          else
            (case is_attr_list ops s idx1 idx2 of
               Inl e \<Rightarrow> Inl (e, s)
             | Inr several \<Rightarrow>
                 if several then set_attrs_zip ops idx1 idx2 val s
                 else Inl (err idx2, s)))"

text \<open>
  \<^verbatim>\<open>_set_by_pair(idx1, idx2, value)\<close>. With a string first, a second that is a string and
  an identifier of the collection selects two documents. With an integer first, only an
  integer second selects two documents. A slice, a sequence or the ellipsis first goes to
  \<^verbatim>\<open>_set_docs_attributes\<close>; any other first selector falls off the end of the function.
\<close>

definition set_by_pair :: "'s ops \<Rightarrow> pyval \<Rightarrow> pyval \<Rightarrow> pyval \<Rightarrow> 's \<Rightarrow> 's result" where
  "set_by_pair ops idx1 idx2 val s =
     (if is_str idx1 then
        (if is_str idx2 \<and> contains ops s idx2 then set_two_docs ops idx1 idx2 val s
         else set_attr_or_fail ops ValueError_not_id_nor_attr idx1 idx2 val s)
      else if is_int idx1 then
        (if is_int idx2 then set_two_docs ops idx1 idx2 val s
         else set_attr_or_fail ops ValueError_not_attr idx1 idx2 val s)
      else if is_slice idx1 \<or> is_sequence idx1 \<or> idx1 = PEllipsis then
        set_docs_attributes ops idx1 idx2 val s
      else Inr s)"

subsection \<open>The setter\<close>

text \<open>\<^verbatim>\<open>index.squeeze()\<close> drops the dimensions of size one; \<^verbatim>\<open>index.ndim\<close> counts the rest.\<close>

fun squeeze :: "pyval \<Rightarrow> pyval" where
  "squeeze (PNdarray sh xs) = PNdarray (filter (\<lambda>d. d \<noteq> 1) sh) xs"
| "squeeze v = v"

fun ndim :: "pyval \<Rightarrow> nat" where
  "ndim (PNdarray sh xs) = length sh"
| "ndim v = 0"

text \<open>\<^verbatim>\<open>index.tolist()\<close> of an array of one dimension, the only one it is called on.\<close>

fun tolist :: "pyval \<Rightarrow> pyval" where
  "tolist (PNdarray sh xs) = PList xs"
| "tolist v = v"

lemma size_member: "x \<in> set xs \<Longrightarrow> size (x :: pyval) < Suc (size_list size xs)"
  by (induction xs) auto

lemma size_seq_items: "x \<in> set (seq_items v) \<Longrightarrow> \<not> is_str v \<Longrightarrow> size x < size v"
  by (cases v) (auto dest: size_member)

lemma size_tolist_squeeze: "is_ndarray v \<Longrightarrow> size (tolist (squeeze v)) = size v"
  by (cases v) auto

text \<open>
  \<^verbatim>\<open>__setitem__(index, value)\<close>, branch by branch in the order of the source. The
  statements \<^verbatim>\<open>self[si] = value\<close> and \<^verbatim>\<open>self[index.tolist()] = value\<close> are calls of the
  same function.
\<close>

function setitem :: "'s ops \<Rightarrow> pyval \<Rightarrow> pyval \<Rightarrow> 's \<Rightarrow> 's result" where
  "setitem ops index val s =
     (if is_int_or_generic index \<and> \<not> is_bool index then
        set_doc_by_offset ops (to_int index) val s
      else if is_str index then
        (if take 1 (str_of index) = ''@'' then
           (case traverse_flat ops s (drop 1 (str_of index)) of
              Inl e \<Rightarrow> Inl (e, s)
            | Inr docs \<Rightarrow> set_doc_value_pairs ops docs val s)
         else set_doc_by_id ops index val s)
      else if is_slice index then set_docs_by_slice ops index val s
      else if index = PEllipsis then set_doc_value_pairs ops (flatten ops s) val s
      else if is_sequence index then
        (if is_tuple index \<and> length (seq_items index) = 2 then
           set_by_pair ops (seq_items index ! 0) (seq_items index ! 1) val s
         else
           (case seq_items index of
              [] \<Rightarrow> Inl (IndexError_out_of_range, s)
            | first # others \<Rightarrow>
                if is_bool first then set_by_mask ops first val s
                else if is_int first \<or> is_str first then
                  (if is_str val \<or> \<not> is_sequence val then
                     for_each (\<lambda>si. setitem ops si val) (seq_items index) s
                   else
                     for_each (\<lambda>(si, v). setitem ops si v)
                       (zip (seq_items index) (seq_items val)) s)
                else Inr s))
      else if is_ndarray index then
        (if ndim (squeeze index) = 1 then setitem ops (tolist (squeeze index)) val s
         else Inl (IndexError_ndim (ndim (squeeze index)), s))
      else Inl (IndexError_unsupported (typename index) index, s))"
  by pat_completeness auto

termination
proof (relation "measure (\<lambda>(ops, index, val, s). 2 * size index + (if is_ndarray index then 1 else 0))")
  show "wf (measure (\<lambda>(ops :: 's ops, index, val :: pyval, s :: 's).
      2 * size index + (if is_ndarray index then 1 else 0)))"
    by simp
next
  fix ops :: "'s ops" and index val :: pyval and s u :: 's and first others si
  assume "\<not> is_str index" "si \<in> set (seq_items index)"
  then have "size si < size index"
    by (simp add: size_seq_items)
  then show "((ops, si, val, u), (ops, index, val, s))
      \<in> measure (\<lambda>(ops, index, val, s). 2 * size index + (if is_ndarray index then 1 else 0))"
    by simp
next
  fix ops :: "'s ops" and index val :: pyval and s u :: 's and first others p si v
  assume "\<not> is_str index" "p \<in> set (zip (seq_items index) (seq_items val))" "(si, v) = p"
  then have "si \<in> set (seq_items index)"
    by (auto dest: set_zip_leftD)
  with \<open>\<not> is_str index\<close> have "size si < size index"
    by (simp add: size_seq_items)
  then show "((ops, si, v, u), (ops, index, val, s))
      \<in> measure (\<lambda>(ops, index, val, s). 2 * size index + (if is_ndarray index then 1 else 0))"
    by simp
next
  fix ops :: "'s ops" and index val :: pyval and s :: 's
  assume "is_ndarray index"
  then have "size (tolist (squeeze index)) = size index" "\<not> is_ndarray (tolist (squeeze index))"
    by (cases index; simp)+
  then show "((ops, tolist (squeeze index), val, s), (ops, index, val, s))
      \<in> measure (\<lambda>(ops, index, val, s). 2 * size index + (if is_ndarray index then 1 else 0))"
    using \<open>is_ndarray index\<close> by simp
qed

declare setitem.simps [simp del]

section \<open>An in-memory collection\<close>

text \<open>
  The primitive operations that \<^verbatim>\<open>__setitem__\<close> ends in belong to the storage backends
  and to mixins that are not among the sources. To run the resolver on concrete inputs
  they are given here for the simplest backend, each from the words of the specification:
  the collection is the list of its documents, the Offset2ID Table is the list of their
  identifiers.
\<close>

type_synonym memory = "pyval list"

text \<open>
  Modelled from the spec: \<^verbatim>\<open>offset_of\<close> of the Offset2ID Table, the offset of an
  identifier: the first position whose document carries it.
\<close>

fun offset_of :: "pyval \<Rightarrow> memory \<Rightarrow> nat option" where
  "offset_of i [] = None"
| "offset_of i (d # ds) =
     (if doc_id d = Inr i then Some 0 else map_option Suc (offset_of i ds))"

text \<open>
  Modelled from the spec: an offset is a zero-based position; negative offsets count from
  the end; an offset outside the collection has no position.
\<close>

definition position :: "int \<Rightarrow> memory \<Rightarrow> nat option" where
  "position k s =
     (let n = int (length s); j = (if k < 0 then n + k else k)
      in if 0 \<le> j \<and> j < n then Some (nat j) else None)"

text \<open>
  Modelled from the spec: get by offset and get by identifier of the Storage Backend
  contract (\<^verbatim>\<open>_get_doc_by_offset\<close>, \<^verbatim>\<open>_get_doc_by_id\<close>, not among the sources): the
  document, or \<^verbatim>\<open>NotFound\<close>.
\<close>

definition mem_get_one :: "memory \<Rightarrow> pyval \<Rightarrow> error + pyval" where
  "mem_get_one s i =
     (if is_str i then
        (case offset_of i s of None \<Rightarrow> Inl (KeyError (str_of i)) | Some j \<Rightarrow> Inr (s ! j))
      else if is_int_or_generic i \<and> \<not> is_bool i then
        (case position (to_int i) s of None \<Rightarrow> Inl IndexError_out_of_range | Some j \<Rightarrow> Inr (s ! j))
      else Inl (IndexError_unsupported (typename i) i))"

text \<open>Modelled from the spec: the documents of a list of offsets or identifiers, in its order.\<close>

fun mem_get_all :: "memory \<Rightarrow> pyval list \<Rightarrow> error + pyval list" where
  "mem_get_all s [] = Inr []"
| "mem_get_all s (i # is) =
     (case mem_get_one s i of
        Inl e \<Rightarrow> Inl e
      | Inr d \<Rightarrow> (case mem_get_all s is of Inl e \<Rightarrow> Inl e | Inr ds \<Rightarrow> Inr (d # ds)))"

text \<open>
  Modelled from the spec: a slice is translated to the concrete offset range against the
  current length; the bounds of a slice without a step, clamped as Python does.
\<close>

definition slice_bound :: "nat \<Rightarrow> int option \<Rightarrow> nat \<Rightarrow> nat" where
  "slice_bound n b dflt =
     (case b of
        None \<Rightarrow> dflt
      | Some k \<Rightarrow> if k < 0 then nat (int n + k) else min n (nat k))"

text \<open>
  Modelled from the spec: \<^verbatim>\<open>__getitem__\<close> (not among the sources) on the index forms used
  here: an offset or identifier gives the document; a slice without a step, the ellipsis
  and a list of offsets or identifiers give a document array in the order of the index.
\<close>

fun mem_getitem :: "memory \<Rightarrow> pyval \<Rightarrow> error + pyval" where
  "mem_getitem s (PSlice a b None) =
     Inr (PDocArray (drop (slice_bound (length s) a 0) (take (slice_bound (length s) b (length s)) s)))"
| "mem_getitem s PEllipsis = Inr (PDocArray s)"
| "mem_getitem s (PList is) =
     (case mem_get_all s is of Inl e \<Rightarrow> Inl e | Inr ds \<Rightarrow> Inr (PDocArray ds))"
| "mem_getitem s i = mem_get_one s i"

text \<open>
  Modelled from the spec: the attribute names that are valid on a document (the class
  \<^verbatim>\<open>Document\<close> is not among the sources).
\<close>

definition mem_hasattr :: "pyval \<Rightarrow> string \<Rightarrow> bool" where
  "mem_hasattr d a =
     (case d of
        PDoc i attrs \<Rightarrow> a \<in> set [''id'', ''text'', ''tensor'', ''embedding'', ''blob'', ''tags'']
      | _ \<Rightarrow> False)"

text \<open>Modelled from the spec: set by offset replaces the payload at the offset.\<close>

definition mem_set_doc_by_offset :: "int \<Rightarrow> pyval \<Rightarrow> memory \<Rightarrow> memory result" where
  "mem_set_doc_by_offset k v s =
     (case position k s of
        None \<Rightarrow> Inl (IndexError_out_of_range, s)
      | Some j \<Rightarrow> Inr (s[j := v]))"

text \<open>Modelled from the spec: set by identifier replaces the payload of the identifier.\<close>

definition mem_set_doc_by_id :: "pyval \<Rightarrow> pyval \<Rightarrow> memory \<Rightarrow> memory result" where
  "mem_set_doc_by_id i v s =
     (case offset_of i s of
        None \<Rightarrow> Inl (KeyError (str_of i), s)
      | Some j \<Rightarrow> Inr (s[j := v]))"

text \<open>
  Modelled from the spec: set by a slice without a step puts the values in the place of
  the range.
\<close>

fun mem_set_docs_by_slice :: "pyval \<Rightarrow> pyval \<Rightarrow> memory \<Rightarrow> memory result" where
  "mem_set_docs_by_slice (PSlice a b None) v s =
     (case py_iter v of
        Inl e \<Rightarrow> Inl (e, s)
      | Inr vs \<Rightarrow>
          Inr (take (slice_bound (length s) a 0) s @ vs
               @ drop (max (slice_bound (length s) a 0) (slice_bound (length s) b (length s))) s))"
| "mem_set_docs_by_slice i v s = Inl (IndexError_unsupported (typename i) i, s)"

text \<open>
  Modelled from the spec: set by value pairs (\<^verbatim>\<open>_set_doc_value_pairs\<close>, not among the
  sources): each document receives the corresponding value positionally, through its
  identifier; a length mismatch between the documents and the values fails with
  \<^verbatim>\<open>ValueError\<close> before anything is written.
\<close>

definition mem_set_doc_value_pairs :: "pyval \<Rightarrow> pyval \<Rightarrow> memory \<Rightarrow> memory result" where
  "mem_set_doc_value_pairs docs vals s =
     (case py_iter docs of
        Inl e \<Rightarrow> Inl (e, s)
      | Inr ds \<Rightarrow>
          (case py_len vals of
             Inl e \<Rightarrow> Inl (e, s)
           | Inr n \<Rightarrow>
               if length ds \<noteq> n then Inl (ValueError_length (length ds) n, s)
               else
                 for_each
                   (\<lambda>(d, v) u. case doc_id d of
                                  Inl e \<Rightarrow> Inl (e, u)
                                | Inr i \<Rightarrow> mem_set_doc_by_id i v u)
                   (zip ds (seq_items vals)) s))"

text \<open>
  Modelled from the spec: the single-attribute-by-id primitive (\<^verbatim>\<open>_set_doc_attr_by_id\<close>,
  not among the sources) writes the attribute on the document with the identifier.
\<close>

definition mem_set_doc_attr_by_id :: "pyval \<Rightarrow> pyval \<Rightarrow> pyval \<Rightarrow> memory \<Rightarrow> memory result" where
  "mem_set_doc_attr_by_id i a v s =
     (case offset_of i s of
        None \<Rightarrow> Inl (KeyError (str_of i), s)
      | Some j \<Rightarrow>
          if is_str a \<and> mem_hasattr (s ! j) (str_of a)
          then Inr (s[j := set_attr (s ! j) (str_of a) v])
          else Inl (AttributeError (str_of a), s))"

text \<open>
  Modelled from the spec: the batch variant for an array column (the setters
  \<^verbatim>\<open>tensors\<close> and \<^verbatim>\<open>embeddings\<close> of a document array, not among the sources): one row
  for each document, a length mismatch fails with \<^verbatim>\<open>ValueError\<close>.
\<close>

definition mem_set_column :: "string \<Rightarrow> pyval \<Rightarrow> pyval \<Rightarrow> error + pyval" where
  "mem_set_column a docs v =
     (case py_iter docs of
        Inl e \<Rightarrow> Inl e
      | Inr ds \<Rightarrow>
          (case py_iter v of
             Inl e \<Rightarrow> Inl e
           | Inr vs \<Rightarrow>
               if length ds \<noteq> length vs then Inl (ValueError_length (length ds) (length vs))
               else Inr (PDocArray (map (\<lambda>(d, w). set_attr d a w) (zip ds vs)))))"

text \<open>
  Modelled from the spec: the methods of the collection over the in-memory backend;
  membership is by identifier, flattening and traversal give all documents.
\<close>

definition mem_ops :: "memory ops" where
  "mem_ops =
     \<lparr> len_self = length,
       iter_self = (\<lambda>s. s),
       contains = (\<lambda>s i. is_str i \<and> offset_of i s \<noteq> None),
       getitem = mem_getitem,
       hasattr = mem_hasattr,
       traverse_flat = (\<lambda>s path. Inr (PDocArray s)),
       flatten = PDocArray,
       set_doc_by_offset = mem_set_doc_by_offset,
       set_doc_by_id = mem_set_doc_by_id,
       set_docs_by_slice = mem_set_docs_by_slice,
       set_doc_value_pairs = mem_set_doc_value_pairs,
       set_doc_attr_by_id = mem_set_doc_attr_by_id,
       set_tensors = mem_set_column ''tensor'',
       set_embeddings = mem_set_column ''embedding'' \<rparr>"

text \<open>A document that carries a text.\<close>

definition doc :: "string \<Rightarrow> string \<Rightarrow> pyval" where
  "doc i t = PDoc i [(''text'', PStr t)]"

text \<open>The collection of the end-to-end scenarios: five documents \<open>d0\<close> to \<open>d4\<close>.\<close>

definition five_docs :: memory where
  "five_docs =
     [doc ''d0'' ''t0'', doc ''d1'' ''t1'', doc ''d2'' ''t2'', doc ''d3'' ''t3'', doc ''d4'' ''t4'']"

section \<open>Storage backends\<close>

subsection \<open>Redis\<close>

text \<open>
  The Redis server as the client of \<^verbatim>\<open>redis/getsetdel.py\<close> sees it: keys with a string,
  a hash or a list as value, and the commands issued so far. \<^verbatim>\<open>GET\<close> answers with the
  string or nothing and fails on a key that holds another type; \<^verbatim>\<open>EXISTS\<close> answers with
  the number of keys found; \<^verbatim>\<open>DEL\<close> removes the key.
\<close>

datatype 'p redis_value = RString string | RHash 'p | RList "string list"

datatype redis_cmd = GET string | EXISTS string | DEL string

record 'p redis =
  store :: "string \<rightharpoonup> 'p redis_value"
  issued :: "redis_cmd list"

definition client_get :: "string \<Rightarrow> 'p redis \<Rightarrow> (error \<times> 'p redis) + (string option \<times> 'p redis)" where
  "client_get k r =
     (let r' = r\<lparr>issued := issued r @ [GET k]\<rparr>
      in case store r k of
           None \<Rightarrow> Inr (None, r')
         | Some (RString x) \<Rightarrow> Inr (Some x, r')
         | Some _ \<Rightarrow> Inl (BackendError ''WRONGTYPE'', r'))"

definition client_exists :: "string \<Rightarrow> 'p redis \<Rightarrow> nat \<times> 'p redis" where
  "client_exists k r =
     ((case store r k of None \<Rightarrow> 0 | Some v \<Rightarrow> 1), r\<lparr>issued := issued r @ [EXISTS k]\<rparr>)"

definition client_delete :: "string \<Rightarrow> 'p redis \<Rightarrow> 'p redis" where
  "client_delete k r = r\<lparr>store := (store r)(k := None), issued := issued r @ [DEL k]\<rparr>"

text \<open>
  A configuration object is the list of its attributes; reading an attribute that the
  object does not have raises \<^verbatim>\<open>AttributeError\<close>.
\<close>

type_synonym config = "(string \<times> pyval) list"

definition getattr_config :: "config \<Rightarrow> string \<Rightarrow> error + pyval" where
  "getattr_config cfg name =
     (case map_of cfg name of None \<Rightarrow> Inl (AttributeError name) | Some v \<Rightarrow> Inr v)"

text \<open>
  The dataclass \<^verbatim>\<open>RedisConfig\<close> of \<^verbatim>\<open>redis/backend.py\<close>: its fields in the order of the
  declaration, with their defaults; \<^verbatim>\<open>n_dim\<close> has none. It declares no field
  \<^verbatim>\<open>key_prefix\<close>, and no source file sets one.
\<close>

definition RedisConfig :: "int \<Rightarrow> config" where
  "RedisConfig n =
     [(''n_dim'', PInt n),
      (''host'', PStr ''localhost''),
      (''port'', PInt 6379),
      (''flush'', PBool False),
      (''update_schema'', PBool True),
      (''distance'', PStr ''COSINE''),
      (''redis_config'', POther ''dict''),
      (''index_text'', PBool False),
      (''tag_indices'', PList []),
      (''batch_size'', PInt 64),
      (''method'', PStr ''HNSW''),
      (''initial_cap'', PNone),
      (''ef_construction'', PNone),
      (''m'', PNone),
      (''ef_runtime'', PNone),
      (''block_size'', PNone),
      (''columns'', PNone)]"

text \<open>
  \<^verbatim>\<open>self._config.key_prefix + _id\<close>: the read of the attribute, then the concatenation,
  which raises \<^verbatim>\<open>TypeError\<close> when the prefix is no string.
\<close>

definition prefixed_key :: "config \<Rightarrow> string \<Rightarrow> error + string" where
  "prefixed_key cfg i =
     (case getattr_config cfg ''key_prefix'' of
        Inl e \<Rightarrow> Inl e
      | Inr p \<Rightarrow> if is_str p then Inr (str_of p @ i) else Inl (TypeError_concat p))"

text \<open>
  \<^verbatim>\<open>_getitem(doc_id)\<close>: inside the \<^verbatim>\<open>try\<close>, the key is built and the answer of \<^verbatim>\<open>GET\<close> is
  bound to \<^verbatim>\<open>result\<close>; the function ends without a \<^verbatim>\<open>return\<close> (the decoding of the
  document is commented out), so it returns \<^verbatim>\<open>None\<close>. Any exception of the \<^verbatim>\<open>try\<close>, that
  of the attribute read too, becomes \<^verbatim>\<open>KeyError(doc_id)\<close>.
\<close>

definition redis_getitem ::
  "config \<Rightarrow> string \<Rightarrow> 'p redis \<Rightarrow> (error \<times> 'p redis) + (pyval \<times> 'p redis)" where
  "redis_getitem cfg did r =
     (case prefixed_key cfg did of
        Inl ex \<Rightarrow> Inl (KeyError did, r)
      | Inr k \<Rightarrow>
          (case client_get k r of
             Inl (ex, r') \<Rightarrow> Inl (KeyError did, r')
           | Inr (result, r') \<Rightarrow> Inr (PNone, r')))"

definition redis_get_doc_by_id ::
  "config \<Rightarrow> string \<Rightarrow> 'p redis \<Rightarrow> (error \<times> 'p redis) + (pyval \<times> 'p redis)" where
  "redis_get_doc_by_id cfg i r = redis_getitem cfg i r"

text \<open>\<^verbatim>\<open>_doc_id_exists(doc_id)\<close> of \<^verbatim>\<open>redis/backend.py\<close>.\<close>

definition redis_doc_id_exists :: "string \<Rightarrow> 'p redis \<Rightarrow> nat \<times> 'p redis" where
  "redis_doc_id_exists k r = client_exists k r"

text \<open>
  \<^verbatim>\<open>_del_doc_by_id(_id)\<close>: the key is built for the test and built again for the
  deletion; it is deleted when \<^verbatim>\<open>EXISTS\<close> finds it. An exception of the attribute read is
  not caught here.
\<close>

definition redis_del_doc_by_id :: "config \<Rightarrow> string \<Rightarrow> 'p redis \<Rightarrow> 'p redis result" where
  "redis_del_doc_by_id cfg i r =
     (case prefixed_key cfg i of
        Inl e \<Rightarrow> Inl (e, r)
      | Inr k \<Rightarrow>
          (case redis_doc_id_exists k r of
             (n, r') \<Rightarrow>
               if n \<noteq> 0 then
                 (case prefixed_key cfg i of
                    Inl e \<Rightarrow> Inl (e, r')
                  | Inr k' \<Rightarrow> Inr (client_delete k' r'))
               else Inr r'))"

text \<open>
  \<^verbatim>\<open>_set_doc_by_id(_id, value)\<close>. The payload (\<^verbatim>\<open>_document_to_redis\<close>, bytes of a float
  array and a serialised document) and \<^verbatim>\<open>_add\<close>, which no source file defines, are
  parameters.
\<close>

definition redis_set_doc_by_id ::
  "(pyval \<Rightarrow> 'p) \<Rightarrow> (string \<Rightarrow> 'p \<Rightarrow> 'p redis \<Rightarrow> 'p redis result) \<Rightarrow> config
    \<Rightarrow> string \<Rightarrow> pyval \<Rightarrow> 'p redis \<Rightarrow> 'p redis result" where
  "redis_set_doc_by_id document_to_redis add cfg i v r =
     (case doc_id v of
        Inl e \<Rightarrow> Inl (e, r)
      | Inr vid \<Rightarrow>
          (case (if PStr i \<noteq> vid then redis_del_doc_by_id cfg i r else Inr r) of
             Inl e \<Rightarrow> Inl e
           | Inr r' \<Rightarrow> add i (document_to_redis v) r'))"

subsection \<open>Qdrant\<close>

text \<open>
  The Qdrant collection holds points by identifier; a point carries the serialised
  document (its vector, an array of floats, is left out). \<^verbatim>\<open>get_point\<close> fails with the
  status 404 on a missing point; the serialisation of a document (\<^verbatim>\<open>to_base64\<close>,
  \<^verbatim>\<open>from_base64\<close> of the class \<^verbatim>\<open>Document\<close>) is a parameter.
\<close>

record 'b codec =
  to_base64 :: "pyval \<Rightarrow> 'b"
  from_base64 :: "'b \<Rightarrow> pyval"

type_synonym 'b qdrant = "string \<rightharpoonup> 'b"

definition get_point :: "string \<Rightarrow> 'b qdrant \<Rightarrow> nat + 'b" where
  "get_point i q = (case q i of None \<Rightarrow> Inl 404 | Some b \<Rightarrow> Inr b)"

definition delete_points :: "string list \<Rightarrow> 'b qdrant \<Rightarrow> 'b qdrant" where
  "delete_points is q = fold (\<lambda>i m. m(i := None)) is q"

definition upsert_points :: "(string \<times> 'b) list \<Rightarrow> 'b qdrant \<Rightarrow> 'b qdrant" where
  "upsert_points ps q = fold (\<lambda>(i, b) m. m(i \<mapsto> b)) ps q"

text \<open>\<^verbatim>\<open>_document_to_qdrant(doc)\<close>.\<close>

definition document_to_qdrant :: "'b codec \<Rightarrow> pyval \<Rightarrow> error + (string \<times> 'b)" where
  "document_to_qdrant c d =
     (case doc_id d of Inl e \<Rightarrow> Inl e | Inr i \<Rightarrow> Inr (str_of i, to_base64 c d))"

text \<open>
  \<^verbatim>\<open>_get_doc_by_id(_id)\<close>: the status 404 becomes \<^verbatim>\<open>KeyError\<close>; with any other status the
  handler ends and the function returns \<^verbatim>\<open>None\<close>.
\<close>

definition qdrant_get_doc_by_id :: "'b codec \<Rightarrow> string \<Rightarrow> 'b qdrant \<Rightarrow> error + pyval" where
  "qdrant_get_doc_by_id c i q =
     (case get_point i q of
        Inl status \<Rightarrow> if status = 404 then Inl (KeyError i) else Inr PNone
      | Inr b \<Rightarrow> Inr (from_base64 c b))"

definition qdrant_del_doc_by_id :: "string \<Rightarrow> 'b qdrant \<Rightarrow> 'b qdrant" where
  "qdrant_del_doc_by_id i q = delete_points [i] q"

text \<open>\<^verbatim>\<open>_set_doc_by_id(_id, value)\<close>.\<close>

definition qdrant_set_doc_by_id ::
  "'b codec \<Rightarrow> string \<Rightarrow> pyval \<Rightarrow> 'b qdrant \<Rightarrow> 'b qdrant result" where
  "qdrant_set_doc_by_id c i v q =
     (case doc_id v of
        Inl e \<Rightarrow> Inl (e, q)
      | Inr vid \<Rightarrow>
          (let q' = (if PStr i \<noteq> vid then qdrant_del_doc_by_id i q else q)
           in case document_to_qdrant c v of
                Inl e \<Rightarrow> Inl (e, q')
              | Inr p \<Rightarrow> Inr (upsert_points [p] q')))"

text \<open>\<^verbatim>\<open>_id_exists(x)\<close> of \<^verbatim>\<open>qdrant/seqlike.py\<close>: true unless the read raises \<^verbatim>\<open>KeyError\<close>.\<close>

definition qdrant_id_exists :: "'b codec \<Rightarrow> string \<Rightarrow> 'b qdrant \<Rightarrow> bool" where
  "qdrant_id_exists c i q =
     (case qdrant_get_doc_by_id c i q of Inl e \<Rightarrow> False | Inr d \<Rightarrow> True)"

subsection \<open>Elasticsearch\<close>

text \<open>
  The Elasticsearch index holds one source per \<^verbatim>\<open>_id\<close>; the operation \<^verbatim>\<open>index\<close> of a bulk
  request writes the source of its \<^verbatim>\<open>_id\<close>, in place when the \<^verbatim>\<open>_id\<close> is there already.
  The state of the collection is the index and the Offset2ID Table.
\<close>

record 'b action =
  op_id :: string
  op_embedding :: pyval
  op_blob :: 'b

record 'b elastic =
  es_index :: "(string \<times> pyval \<times> 'b) list"
  offset2ids :: "string list"

text \<open>\<^verbatim>\<open>__len__\<close>: the count of the index.\<close>

definition es_len :: "'b elastic \<Rightarrow> nat" where
  "es_len st = length (es_index st)"

text \<open>\<^verbatim>\<open>_send_requests(request)\<close>: the bulk helper runs the actions in order.\<close>

definition send_requests :: "'b action list \<Rightarrow> 'b elastic \<Rightarrow> 'b elastic" where
  "send_requests request st =
     st\<lparr>es_index := fold (\<lambda>a idx. upsert (op_id a) (op_embedding a, op_blob a) idx) request
                       (es_index st)\<rparr>"

text \<open>\<^verbatim>\<open>value.embedding\<close> and its assignment.\<close>

fun get_embedding :: "pyval \<Rightarrow> error + pyval" where
  "get_embedding (PDoc i attrs) =
     Inr (case map_of attrs ''embedding'' of None \<Rightarrow> PNone | Some e \<Rightarrow> e)"
| "get_embedding v = Inl (AttributeError ''embedding'')"

text \<open>
  The loop of \<^verbatim>\<open>extend\<close>: each value gets its mapped embedding (\<^verbatim>\<open>_map_embedding\<close>
  works on arrays of floats and is a parameter), an \<^verbatim>\<open>index\<close> action is added to the
  request and the identifier is appended to the Offset2ID Table.
\<close>

fun extend_loop ::
  "(pyval \<Rightarrow> pyval) \<Rightarrow> 'b codec \<Rightarrow> pyval list \<Rightarrow> 'b action list \<Rightarrow> 'b elastic
    \<Rightarrow> (error \<times> 'b elastic) + ('b action list \<times> 'b elastic)" where
  "extend_loop map_embedding c [] request st = Inr (request, st)"
| "extend_loop map_embedding c (v # vs) request st =
     (case get_embedding v of
        Inl e \<Rightarrow> Inl (e, st)
      | Inr emb \<Rightarrow>
          (let v' = set_attr v ''embedding'' (map_embedding emb)
           in case doc_id v' of
                Inl e \<Rightarrow> Inl (e, st)
              | Inr i \<Rightarrow>
                  extend_loop map_embedding c vs
                    (request @ [\<lparr>op_id = str_of i, op_embedding = map_embedding emb,
                                 op_blob = to_base64 c v'\<rparr>])
                    (st\<lparr>offset2ids := offset2ids st @ [str_of i]\<rparr>)))"

text \<open>\<^verbatim>\<open>extend(values)\<close>: the request is sent when it is not empty.\<close>

definition extend :: "(pyval \<Rightarrow> pyval) \<Rightarrow> 'b codec \<Rightarrow> pyval list \<Rightarrow> 'b elastic \<Rightarrow> 'b elastic result" where
  "extend map_embedding c vals st =
     (case extend_loop map_embedding c vals [] st of
        Inl e \<Rightarrow> Inl e
      | Inr (request, st') \<Rightarrow>
          if length request > 0 then Inr (send_requests request st') else Inr st')"

section \<open>Properties of the index resolver\<close>

subsection \<open>One equation for each form of index\<close>

text \<open>
  The definition of \<open>setitem\<close> is one recursive equation; these are its instances for the
  forms an index can take, in the order of the branches.
\<close>

lemma setitem_offset [simp]:
  "setitem ops (PInt n) v s = set_doc_by_offset ops n v s"
  "setitem ops (PNpInt n) v s = set_doc_by_offset ops n v s"
  by (subst setitem.simps, simp)+

lemma setitem_str [simp]:
  "setitem ops (PStr x) v s =
     (if take 1 x = ''@'' then
        (case traverse_flat ops s (drop 1 x) of
           Inl e \<Rightarrow> Inl (e, s)
         | Inr docs \<Rightarrow> set_doc_value_pairs ops docs v s)
      else set_doc_by_id ops (PStr x) v s)"
  by (subst setitem.simps) simp

lemma setitem_slice [simp]:
  "setitem ops (PSlice a b c) v s = set_docs_by_slice ops (PSlice a b c) v s"
  by (subst setitem.simps) simp

lemma setitem_ellipsis [simp]:
  "setitem ops PEllipsis v s = set_doc_value_pairs ops (flatten ops s) v s"
  by (subst setitem.simps) simp

lemma setitem_pair [simp]:
  "setitem ops (PTuple [idx1, idx2]) v s = set_by_pair ops idx1 idx2 v s"
  by (subst setitem.simps) simp

lemma setitem_list [simp]:
  "setitem ops (PList xs) v s =
     (case xs of
        [] \<Rightarrow> Inl (IndexError_out_of_range, s)
      | first # others \<Rightarrow>
          if is_bool first then set_by_mask ops first v s
          else if is_int first \<or> is_str first then
            (if is_str v \<or> \<not> is_sequence v then for_each (\<lambda>si. setitem ops si v) xs s
             else for_each (\<lambda>(si, w). setitem ops si w) (zip xs (seq_items v)) s)
          else Inr s)"
  by (subst setitem.simps) (simp split: list.splits)

lemma setitem_tuple:
  "length xs \<noteq> 2 \<Longrightarrow> setitem ops (PTuple xs) v s = setitem ops (PList xs) v s"
  by (subst setitem.simps) (simp split: list.splits)

lemma setitem_ndarray [simp]:
  "setitem ops (PNdarray sh xs) v s =
     (if length (filter (\<lambda>d. d \<noteq> 1) sh) = 1 then setitem ops (PList xs) v s
      else Inl (IndexError_ndim (length (filter (\<lambda>d. d \<noteq> 1) sh)), s))"
  by (subst setitem.simps) simp

text \<open>The last branch: an index of no supported type is rejected and named.\<close>

lemma setitem_unsupported [simp]:
  "setitem ops PNone v s = Inl (IndexError_unsupported ''NoneType'' PNone, s)"
  "setitem ops (PBool b) v s = Inl (IndexError_unsupported ''bool'' (PBool b), s)"
  "setitem ops (PDoc i attrs) v s = Inl (IndexError_unsupported ''Document'' (PDoc i attrs), s)"
  "setitem ops (POther tn) v s = Inl (IndexError_unsupported tn (POther tn), s)"
  by (subst setitem.simps, simp)+

lemmas mem_simps = mem_ops_def mem_get_one_def mem_hasattr_def
  mem_set_doc_by_offset_def mem_set_doc_by_id_def mem_set_doc_value_pairs_def
  mem_set_doc_attr_by_id_def mem_set_column_def position_def slice_bound_def doc_def
  five_docs_def

subsection \<open>Boolean mask\<close>

text \<open>
  \<^verbatim>\<open>_set_by_mask\<close> itself rejects a mask of the wrong length before it writes, and names
  both lengths.
\<close>

lemma set_by_mask_length_mismatch:
  "py_len m = Inr n \<Longrightarrow> n \<noteq> len_self ops s
    \<Longrightarrow> set_by_mask ops m v s = Inl (IndexError_mask_length (len_self ops s) n, s)"
  by (simp add: set_by_mask_def)

text \<open>
  The setter calls \<^verbatim>\<open>self._set_by_mask(index[0], value)\<close>: the mask that arrives is its
  first element, a \<^verbatim>\<open>bool\<close>, and \<^verbatim>\<open>len\<close> of it raises \<^verbatim>\<open>TypeError\<close>, for every list
  that starts with a boolean and on every backend.
\<close>

lemma setitem_bool_first:
  "setitem ops (PList (PBool b # xs)) v s = Inl (TypeError_no_len (PBool b), s)"
  by (simp add: set_by_mask_def)

text \<open>The empty list fails at \<^verbatim>\<open>index[0]\<close>, with the \<^verbatim>\<open>IndexError\<close> of the list.\<close>

lemma setitem_empty_list:
  "setitem ops (PList []) v s = Inl (IndexError_out_of_range, s)"
  by simp

text \<open>
  C1. On the collection \<open>d0\<close> to \<open>d4\<close>, the set through the mask
  \<^verbatim>\<open>[True, False, True, False, True]\<close> with three values raises \<^verbatim>\<open>TypeError\<close> and writes
  nothing, where the claim has the documents at the offsets 0, 2 and 4 replaced;
  \<^verbatim>\<open>_set_by_mask\<close> called with the mask itself does replace exactly those.
\<close>

theorem mask_set_raises_type_error:
  "setitem mem_ops (PList [PBool True, PBool False, PBool True, PBool False, PBool True])
     (PList [doc ''d0'' ''x'', doc ''d2'' ''y'', doc ''d4'' ''z'']) five_docs
     = Inl (TypeError_no_len (PBool True), five_docs)
   \<and> set_by_mask mem_ops (PList [PBool True, PBool False, PBool True, PBool False, PBool True])
     (PList [doc ''d0'' ''x'', doc ''d2'' ''y'', doc ''d4'' ''z'']) five_docs
     = Inr [doc ''d0'' ''x'', doc ''d1'' ''t1'', doc ''d2'' ''y'', doc ''d3'' ''t3'', doc ''d4'' ''z'']"
  by (simp add: set_by_mask_def mem_simps)

text \<open>
  C4. On the collection of five documents, the set through the mask \<^verbatim>\<open>[True, False]\<close> of
  length two raises \<^verbatim>\<open>TypeError\<close>, where the claim has an \<^verbatim>\<open>IndexError\<close> that names the
  lengths 5 and 2; \<^verbatim>\<open>_set_by_mask\<close> called with the mask itself raises that error.
\<close>

theorem short_mask_raises_type_error:
  "setitem mem_ops (PList [PBool True, PBool False]) v five_docs
     = Inl (TypeError_no_len (PBool True), five_docs)
   \<and> set_by_mask mem_ops (PList [PBool True, PBool False]) v five_docs
     = Inl (IndexError_mask_length 5 2, five_docs)"
  by (simp add: set_by_mask_def mem_simps)

subsection \<open>Classification of the index\<close>

text \<open>
  C3. The index \<^verbatim>\<open>[[0, 1]]\<close>, a list whose first element is a list, matches none of the
  rules: the setter returns without an error and without a change, on every backend,
  where the claim has an \<^verbatim>\<open>IndexError\<close> naming the type.
\<close>

theorem nested_list_index_is_ignored:
  "setitem ops (PList [PList [PInt 0, PInt 1]]) v s = Inr s"
  by simp

subsection \<open>Sequence of offsets or identifiers\<close>

text \<open>
  C7. For a list, or a tuple of another length than two, whose first element is an
  integer (not a boolean) or a string: a value that is a string or no sequence is set at
  every element of the index, each through the setter itself; a value that is a sequence
  is zipped with the index and each pair is set through the setter itself. The first
  exception ends the loop.
\<close>

theorem setitem_sequence_broadcast_or_zip:
  assumes "index = PList xs \<or> (index = PTuple xs \<and> length xs \<noteq> 2)"
    and "xs = x # rest" and "\<not> is_bool x" and "is_int x \<or> is_str x"
  shows "setitem ops index v s =
     (if is_str v \<or> \<not> is_sequence v then for_each (\<lambda>si. setitem ops si v) xs s
      else for_each (\<lambda>(si, w). setitem ops si w) (zip xs (seq_items v)) s)"
  using assms by (auto simp add: setitem_tuple)

theorem setitem_sequence_broadcast_or_zip_witness:
  "setitem mem_ops (PList [PInt 0, PStr ''d3'']) (doc ''z'' ''n'') five_docs
     = Inr [doc ''z'' ''n'', doc ''d1'' ''t1'', doc ''d2'' ''t2'', doc ''z'' ''n'', doc ''d4'' ''t4'']
   \<and> setitem mem_ops (PList [PInt 0, PStr ''d3'']) (PList [doc ''y'' ''m'', doc ''z'' ''n''])
       five_docs
     = Inr [doc ''y'' ''m'', doc ''d1'' ''t1'', doc ''d2'' ''t2'', doc ''z'' ''n'', doc ''d4'' ''t4'']"
proof -
  have shape: "PList [PInt 0, PStr ''d3''] = PList [PInt 0, PStr ''d3'']
      \<or> (PList [PInt 0, PStr ''d3''] = PTuple [PInt 0, PStr ''d3'']
          \<and> length [PInt 0, PStr ''d3''] \<noteq> 2)"
    by simp
  have items: "[PInt 0, PStr ''d3''] = PInt 0 # [PStr ''d3'']"
    by simp
  have first: "\<not> is_bool (PInt 0)" "is_int (PInt 0) \<or> is_str (PInt 0)"
    by simp_all
  note rule = setitem_sequence_broadcast_or_zip [OF shape items first, where ops = mem_ops
      and s = five_docs]
  show ?thesis
    using rule [where v = "doc ''z'' ''n''"]
          rule [where v = "PList [doc ''y'' ''m'', doc ''z'' ''n'']"]
    by (simp add: mem_simps)
qed

subsection \<open>Numeric array\<close>

text \<open>
  C8. An array index that has one dimension after squeezing is set as the list of its
  elements is, by the rules for a sequence: when its first element is an integer, one
  value is set at every element and a sequence of values is zipped with the elements,
  each through the setter itself; an array with more than one dimension after
  squeezing raises \<^verbatim>\<open>IndexError\<close> with the number of dimensions, and the collection is as
  before. On the collection \<open>d0\<close> to \<open>d4\<close> the array of the offsets 0 and 3 replaces
  the documents at these two offsets and no other, with one document for both or with
  one document each.
\<close>

theorem setitem_ndarray_as_list:
  "(ndim (squeeze (PNdarray sh xs)) = 1
      \<longrightarrow> setitem ops (PNdarray sh xs) v s = setitem ops (tolist (squeeze (PNdarray sh xs))) v s
        \<and> tolist (squeeze (PNdarray sh xs)) = PList xs)
   \<and> (ndim (squeeze (PNdarray sh xs)) = 1 \<and> xs = x # rest \<and> \<not> is_bool x
        \<and> (is_int x \<or> is_str x)
      \<longrightarrow> setitem ops (PNdarray sh xs) v s =
          (if is_str v \<or> \<not> is_sequence v then for_each (\<lambda>si. setitem ops si v) xs s
           else for_each (\<lambda>(si, w). setitem ops si w) (zip xs (seq_items v)) s))
   \<and> (ndim (squeeze (PNdarray sh xs)) > 1
      \<longrightarrow> setitem ops (PNdarray sh xs) v s
          = Inl (IndexError_ndim (ndim (squeeze (PNdarray sh xs))), s))"
  by auto

theorem setitem_ndarray_as_list_witness:
  "ndim (squeeze (PNdarray [1, 2] [PInt 0, PInt 3])) = 1
   \<and> setitem mem_ops (PNdarray [1, 2] [PInt 0, PInt 3]) (doc ''z'' ''n'') five_docs
     = Inr [doc ''z'' ''n'', doc ''d1'' ''t1'', doc ''d2'' ''t2'', doc ''z'' ''n'', doc ''d4'' ''t4'']
   \<and> setitem mem_ops (PList [PInt 0, PInt 3]) (doc ''z'' ''n'') five_docs
     = Inr [doc ''z'' ''n'', doc ''d1'' ''t1'', doc ''d2'' ''t2'', doc ''z'' ''n'', doc ''d4'' ''t4'']
   \<and> setitem mem_ops (PNdarray [1, 2] [PInt 0, PInt 3]) (PList [doc ''y'' ''m'', doc ''z'' ''n''])
       five_docs
     = Inr [doc ''y'' ''m'', doc ''d1'' ''t1'', doc ''d2'' ''t2'', doc ''z'' ''n'', doc ''d4'' ''t4'']
   \<and> ndim (squeeze (PNdarray [2, 2] [PInt 0, PInt 3, PInt 1, PInt 2])) > 1
   \<and> setitem mem_ops (PNdarray [2, 2] [PInt 0, PInt 3, PInt 1, PInt 2]) (doc ''z'' ''n'') five_docs
     = Inl (IndexError_ndim 2, five_docs)"
proof -
  have one: "ndim (squeeze (PNdarray [1, 2] [PInt 0, PInt 3])) = 1"
    by simp
  have two: "ndim (squeeze (PNdarray [2, 2] [PInt 0, PInt 3, PInt 1, PInt 2])) > 1"
    by simp
  have first: "[PInt 0, PInt 3] = PInt 0 # [PInt 3] \<and> \<not> is_bool (PInt 0)
      \<and> (is_int (PInt 0) \<or> is_str (PInt 0))"
    by simp
  have as_list: "setitem mem_ops (PNdarray [1, 2] [PInt 0, PInt 3]) v five_docs
      = setitem mem_ops (PList [PInt 0, PInt 3]) v five_docs" for v
    using one first setitem_ndarray_as_list [where sh = "[1, 2]" and xs = "[PInt 0, PInt 3]"
        and x = "PInt 0" and rest = "[PInt 3]" and ops = mem_ops and v = v and s = five_docs]
    by simp
  have rejected: "setitem mem_ops (PNdarray [2, 2] [PInt 0, PInt 3, PInt 1, PInt 2])
      (doc ''z'' ''n'') five_docs = Inl (IndexError_ndim 2, five_docs)"
    using two setitem_ndarray_as_list [where sh = "[2, 2]"
        and xs = "[PInt 0, PInt 3, PInt 1, PInt 2]" and x = "PInt 0"
        and rest = "[PInt 3, PInt 1, PInt 2]" and ops = mem_ops
        and v = "doc ''z'' ''n''" and s = five_docs]
    by simp
  have broadcast: "setitem mem_ops (PList [PInt 0, PInt 3]) (doc ''z'' ''n'') five_docs
      = Inr [doc ''z'' ''n'', doc ''d1'' ''t1'', doc ''d2'' ''t2'', doc ''z'' ''n'', doc ''d4'' ''t4'']"
    by (simp add: mem_simps)
  have zipped: "setitem mem_ops (PList [PInt 0, PInt 3]) (PList [doc ''y'' ''m'', doc ''z'' ''n''])
      five_docs
      = Inr [doc ''y'' ''m'', doc ''d1'' ''t1'', doc ''d2'' ''t2'', doc ''z'' ''n'', doc ''d4'' ''t4'']"
    by (simp add: mem_simps)
  show ?thesis
    using one two rejected broadcast zipped
      as_list [of "doc ''z'' ''n''"] as_list [of "PList [doc ''y'' ''m'', doc ''z'' ''n'']"]
    by (simp only: simp_thms)
qed

subsection \<open>Paired selector: two documents or attributes\<close>





subsection \<open>Paired selector with an empty selection\<close>

text \<open>
  C9. When the documents that the first selector selects are empty,
  \<^verbatim>\<open>_set_docs_attributes\<close> returns without an error and leaves the collection as it is,
  whatever the attributes and the value are; so does the set through a pair whose first
  selector is a slice, a sequence other than a string or the ellipsis, the pairs that
  reach it.
\<close>

theorem set_docs_attributes_empty_selection:
  assumes "getitem ops s idx1 = Inr docs" and "py_bool docs = Inr False"
  shows "set_docs_attributes ops idx1 attrs v s = Inr s
       \<and> (is_slice idx1 \<or> (is_sequence idx1 \<and> \<not> is_str idx1) \<or> idx1 = PEllipsis
            \<longrightarrow> setitem ops (PTuple [idx1, attrs]) v s = Inr s)"
proof (intro conjI impI)
  show unchanged: "set_docs_attributes ops idx1 attrs v s = Inr s"
    using assms by (simp add: set_docs_attributes_def Let_def)
  assume kind: "is_slice idx1 \<or> (is_sequence idx1 \<and> \<not> is_str idx1) \<or> idx1 = PEllipsis"
  then have "\<not> is_str idx1" "\<not> is_int idx1"
    by (cases idx1; auto)+
  then have "set_by_pair ops idx1 attrs v s = set_docs_attributes ops idx1 attrs v s"
    using kind by (auto simp add: set_by_pair_def)
  then show "setitem ops (PTuple [idx1, attrs]) v s = Inr s"
    using unchanged by simp
qed

theorem set_docs_attributes_empty_selection_witness:
  "getitem mem_ops five_docs (PSlice (Some 5) (Some 5) None) = Inr (PDocArray [])
   \<and> py_bool (PDocArray []) = Inr False
   \<and> set_docs_attributes mem_ops (PSlice (Some 5) (Some 5) None) (PStr ''text'')
       (PList [PStr ''x'', PStr ''y'']) five_docs = Inr five_docs
   \<and> setitem mem_ops (PTuple [PSlice (Some 5) (Some 5) None, PStr ''text''])
       (PList [PStr ''x'', PStr ''y'']) five_docs = Inr five_docs"
proof -
  have sel: "getitem mem_ops five_docs (PSlice (Some 5) (Some 5) None) = Inr (PDocArray [])"
    by (simp add: mem_simps)
  have empty: "py_bool (PDocArray []) = Inr False"
    by simp
  show ?thesis
    using sel empty set_docs_attributes_empty_selection [OF sel empty,
        where attrs = "PStr ''text''" and v = "PList [PStr ''x'', PStr ''y'']"]
    by simp
qed

section \<open>Properties of the backends\<close>

subsection \<open>Redis\<close>

text \<open>
  C5. On the Redis backend \<^verbatim>\<open>_get_doc_by_id\<close> returns \<^verbatim>\<open>None\<close> or raises \<^verbatim>\<open>KeyError\<close>, in
  every state of the server: after \<^verbatim>\<open>_set_doc_by_id(id, d)\<close> it does not return \<open>d\<close>, where
  the claim has it return a document equal to \<open>d\<close>.
\<close>

theorem redis_get_doc_by_id_none_or_key_error:
  "(\<exists>r'. redis_get_doc_by_id cfg i r = Inr (PNone, r'))
   \<or> (\<exists>r'. redis_get_doc_by_id cfg i r = Inl (KeyError i, r'))"
  by (auto simp add: redis_get_doc_by_id_def redis_getitem_def client_get_def Let_def
      split: sum.splits option.splits redis_value.splits)

text \<open>
  So it is after a set: whatever \<^verbatim>\<open>_add\<close> writes, the read that follows gives no
  document.
\<close>

lemma redis_get_after_set:
  "redis_set_doc_by_id document_to_redis add cfg i (PDoc j attrs) r = Inr r'
    \<Longrightarrow> redis_get_doc_by_id cfg i r' \<noteq> Inr (PDoc j attrs, r'')"
  by (auto simp add: redis_get_doc_by_id_def redis_getitem_def client_get_def Let_def
      split: sum.splits option.splits redis_value.splits)

text \<open>
  With the configuration class of the backend the read fails at the key prefix: it
  raises \<^verbatim>\<open>KeyError\<close> for every identifier and issues no command.
\<close>

lemma redis_get_doc_by_id_RedisConfig:
  "redis_get_doc_by_id (RedisConfig n) i r = Inl (KeyError i, r)"
  by (simp add: redis_get_doc_by_id_def redis_getitem_def prefixed_key_def getattr_config_def
      RedisConfig_def)

text \<open>
  C10. With the configuration class of the backend, \<^verbatim>\<open>RedisConfig\<close> with any
  \<^verbatim>\<open>n_dim\<close>, deleting an identifier raises \<^verbatim>\<open>AttributeError\<close> at the read of
  \<^verbatim>\<open>key_prefix\<close>, for every identifier and every state of the server, before the test
  for the key is issued; the claim has the delete return without an error when the
  identifier is not in the store.
\<close>

theorem redis_del_doc_by_id_attribute_error:
  "redis_del_doc_by_id (RedisConfig n) i r = Inl (AttributeError ''key_prefix'', r)"
  by (simp add: redis_del_doc_by_id_def prefixed_key_def getattr_config_def RedisConfig_def)

text \<open>
  The guard itself is as the claim has it. With a configuration object that does carry
  a string \<^verbatim>\<open>key_prefix\<close>, deleting an identifier whose key is not in the store issues
  \<^verbatim>\<open>EXISTS\<close> and nothing else: no error, no \<^verbatim>\<open>DEL\<close>, the store as before; a key that is in
  the store is deleted after the test.
\<close>

lemma redis_del_doc_by_id_prefix_missing:
  assumes "getattr_config cfg ''key_prefix'' = Inr (PStr p)" and "store r (p @ i) = None"
  shows "redis_del_doc_by_id cfg i r = Inr (r\<lparr>issued := issued r @ [EXISTS (p @ i)]\<rparr>)"
  using assms
  by (simp add: redis_del_doc_by_id_def prefixed_key_def redis_doc_id_exists_def
      client_exists_def)

lemma redis_del_doc_by_id_prefix_present:
  assumes "getattr_config cfg ''key_prefix'' = Inr (PStr p)" and "store r (p @ i) = Some x"
  shows "redis_del_doc_by_id cfg i r
     = Inr (r\<lparr>store := (store r)(p @ i := None),
              issued := issued r @ [EXISTS (p @ i), DEL (p @ i)]\<rparr>)"
  using assms
  by (simp add: redis_del_doc_by_id_def prefixed_key_def redis_doc_id_exists_def
      client_exists_def client_delete_def)

subsection \<open>Qdrant\<close>

text \<open>
  On the Qdrant backend, when the serialisation gives the document back, the document
  set under an identifier is read back under its own identifier; when the two
  identifiers differ, the old one exists no more and reading it raises \<^verbatim>\<open>KeyError\<close>.
\<close>

lemma qdrant_get_after_set:
  assumes "from_base64 c (to_base64 c (PDoc j attrs)) = PDoc j attrs"
  shows "\<exists>q'. qdrant_set_doc_by_id c i (PDoc j attrs) q = Inr q'
     \<and> qdrant_get_doc_by_id c j q' = Inr (PDoc j attrs)
     \<and> (j \<noteq> i \<longrightarrow> \<not> qdrant_id_exists c i q'
                \<and> qdrant_get_doc_by_id c i q' = Inl (KeyError i))"
  using assms
  by (simp add: qdrant_set_doc_by_id_def qdrant_del_doc_by_id_def document_to_qdrant_def
      delete_points_def upsert_points_def qdrant_get_doc_by_id_def get_point_def
      qdrant_id_exists_def Let_def)

subsection \<open>Elasticsearch: extend and the Offset2ID Table\<close>

lemma upsert_fresh:
  "k \<notin> fst ` set al \<Longrightarrow> upsert k v al = al @ [(k, v)]"
  by (induction al) auto

text \<open>Actions with new and distinct identifiers add their sources at the end of the index.\<close>

lemma send_requests_fresh:
  "distinct (map op_id acts) \<Longrightarrow> set (map op_id acts) \<inter> fst ` set idx = {}
    \<Longrightarrow> fold (\<lambda>a idx. upsert (op_id a) (op_embedding a, op_blob a) idx) acts idx
        = idx @ map (\<lambda>a. (op_id a, op_embedding a, op_blob a)) acts"
proof (induction acts arbitrary: idx)
  case Nil
  then show ?case by simp
next
  case (Cons a acts)
  have fresh: "op_id a \<notin> fst ` set idx"
    using Cons.prems(2) by auto
  have "set (map op_id acts) \<inter> fst ` set (idx @ [(op_id a, op_embedding a, op_blob a)]) = {}"
    using Cons.prems by auto
  with Cons.IH [of "idx @ [(op_id a, op_embedding a, op_blob a)]"] Cons.prems(1) fresh
  show ?case by (simp add: upsert_fresh)
qed

text \<open>
  On documents the loop does not fail: it adds one action for each document, with the
  identifier of the document, and appends the identifiers to the table in input order.
\<close>

lemma extend_loop_docs:
  "\<exists>acts. extend_loop me c (map (\<lambda>(i, a). PDoc i a) ps) request st
      = Inr (request @ acts, st\<lparr>offset2ids := offset2ids st @ map fst ps\<rparr>)
     \<and> map op_id acts = map fst ps"
proof (induction ps arbitrary: request st)
  case Nil
  then show ?case by simp
next
  case (Cons p ps)
  obtain i a where p: "p = (i, a)" by (cases p)
  let ?act = "\<lparr>op_id = i,
      op_embedding = me (case map_of a ''embedding'' of None \<Rightarrow> PNone | Some e \<Rightarrow> e),
      op_blob = to_base64 c (PDoc i (upsert ''embedding''
        (me (case map_of a ''embedding'' of None \<Rightarrow> PNone | Some e \<Rightarrow> e)) a))\<rparr>"
  from Cons.IH [of "request @ [?act]" "st\<lparr>offset2ids := offset2ids st @ [i]\<rparr>"]
  obtain acts where
    "extend_loop me c (map (\<lambda>(i, a). PDoc i a) ps) (request @ [?act])
        (st\<lparr>offset2ids := offset2ids st @ [i]\<rparr>)
      = Inr ((request @ [?act]) @ acts,
             st\<lparr>offset2ids := offset2ids st @ [i]\<rparr>
               \<lparr>offset2ids := offset2ids (st\<lparr>offset2ids := offset2ids st @ [i]\<rparr>) @ map fst ps\<rparr>)"
    and "map op_id acts = map fst ps"
    by blast
  then have "extend_loop me c (map (\<lambda>(i, a). PDoc i a) (p # ps)) request st
      = Inr (request @ (?act # acts), st\<lparr>offset2ids := offset2ids st @ map fst (p # ps)\<rparr>)
     \<and> map op_id (?act # acts) = map fst (p # ps)"
    using p by (simp add: Let_def)
  then show ?case by blast
qed

text \<open>
  C6, as stated, fails. The collection holds the document \<open>a\<close>; \<^verbatim>\<open>extend\<close> with one
  document whose identifier is \<open>a\<close> (a sequence of pairwise-distinct identifiers) appends
  \<open>a\<close> to the table and writes the source of \<open>a\<close> in place: the table has two entries,
  both \<open>a\<close>, and the collection has one document.
\<close>

theorem extend_known_id_counterexample:
  "extend (\<lambda>e. e) \<lparr>to_base64 = (\<lambda>d. d), from_base64 = (\<lambda>b. b)\<rparr> [PDoc ''a'' []]
     \<lparr>es_index = [(''a'', PNone, PDoc ''a'' [])], offset2ids = [''a'']\<rparr>
   = Inr \<lparr>es_index = [(''a'', PNone, PDoc ''a'' [(''embedding'', PNone)])],
          offset2ids = [''a'', ''a'']\<rparr>
   \<and> length (offset2ids \<lparr>es_index = [(''a'', PNone, PDoc ''a'' [(''embedding'', PNone)])],
          offset2ids = [''a'', ''a'']\<rparr>)
     \<noteq> es_len \<lparr>es_index = [(''a'', PNone, PDoc ''a'' [(''embedding'', PNone)])],
          offset2ids = [''a'', ''a'']\<rparr>
   \<and> \<not> distinct (offset2ids \<lparr>es_index = [(''a'', PNone, PDoc ''a'' [(''embedding'', PNone)])],
          offset2ids = [''a'', ''a'']\<rparr>)"
  by (simp add: extend_def send_requests_def es_len_def Let_def)

text \<open>
  C6, amended. On a collection whose table has the size of the collection and no
  duplicate, \<^verbatim>\<open>extend\<close> with documents whose identifiers are pairwise distinct and are
  neither in the index nor in the table returns without an error, appends the
  identifiers to the table in input order, and leaves a table that has the size of the
  collection and no duplicate.
\<close>

theorem extend_appends_ids:
  assumes "distinct (map fst ps)"
    and "set (map fst ps) \<inter> fst ` set (es_index st) = {}"
    and "set (map fst ps) \<inter> set (offset2ids st) = {}"
    and "length (offset2ids st) = es_len st"
    and "distinct (offset2ids st)"
  shows "\<exists>st'. extend me c (map (\<lambda>(i, a). PDoc i a) ps) st = Inr st'
     \<and> offset2ids st' = offset2ids st @ map fst ps
     \<and> length (offset2ids st') = es_len st'
     \<and> distinct (offset2ids st')"
proof -
  from extend_loop_docs [of me c ps "[]" st] obtain acts where
    loop: "extend_loop me c (map (\<lambda>(i, a). PDoc i a) ps) [] st
      = Inr (acts, st\<lparr>offset2ids := offset2ids st @ map fst ps\<rparr>)"
    and ids: "map op_id acts = map fst ps"
    by auto
  let ?st1 = "st\<lparr>offset2ids := offset2ids st @ map fst ps\<rparr>"
  let ?st2 = "if length acts > 0 then send_requests acts ?st1 else ?st1"
  have res: "extend me c (map (\<lambda>(i, a). PDoc i a) ps) st = Inr ?st2"
    using loop by (simp add: extend_def)
  have table: "offset2ids ?st2 = offset2ids st @ map fst ps"
    by (simp add: send_requests_def)
  have len: "length acts = length ps"
    using ids by (metis length_map)
  have fresh: "distinct (map op_id acts)" "set (map op_id acts) \<inter> fst ` set (es_index st) = {}"
    using assms(1,2) ids by simp_all
  have "es_index ?st2 = es_index st @ map (\<lambda>a. (op_id a, op_embedding a, op_blob a)) acts"
  proof (cases "acts = []")
    case True
    then show ?thesis by simp
  next
    case False
    then show ?thesis
      using send_requests_fresh [OF fresh] by (simp add: send_requests_def)
  qed
  then have size: "es_len ?st2 = es_len st + length ps"
    using len by (simp add: es_len_def)
  have "length (offset2ids ?st2) = es_len ?st2"
    using table size assms(4) by simp
  moreover have "distinct (offset2ids ?st2)"
    using table assms(1,3,5) by auto
  ultimately show ?thesis
    using res table by blast
qed

theorem extend_appends_ids_witness:
  "distinct (map fst [(''b'', []), (''c'', [])])
   \<and> set (map fst [(''b'', []), (''c'', [])])
       \<inter> fst ` set (es_index \<lparr>es_index = [(''a'', PNone, PDoc ''a'' [])], offset2ids = [''a'']\<rparr>) = {}
   \<and> set (map fst [(''b'', []), (''c'', [])])
       \<inter> set (offset2ids \<lparr>es_index = [(''a'', PNone, PDoc ''a'' [])], offset2ids = [''a'']\<rparr>) = {}
   \<and> extend (\<lambda>e. e) \<lparr>to_base64 = (\<lambda>d. d), from_base64 = (\<lambda>b. b)\<rparr>
        (map (\<lambda>(i, a). PDoc i a) [(''b'', []), (''c'', [])])
        \<lparr>es_index = [(''a'', PNone, PDoc ''a'' [])], offset2ids = [''a'']\<rparr>
      = Inr \<lparr>es_index = [(''a'', PNone, PDoc ''a'' []),
                          (''b'', PNone, PDoc ''b'' [(''embedding'', PNone)]),
                          (''c'', PNone, PDoc ''c'' [(''embedding'', PNone)])],
             offset2ids = [''a'', ''b'', ''c'']\<rparr>"
proof -
  let ?ps = "[(''b'', []), (''c'', [])] :: (string \<times> (string \<times> pyval) list) list"
  let ?st = "\<lparr>es_index = [(''a'', PNone, PDoc ''a'' [])], offset2ids = [''a'']\<rparr>"
  have h1: "distinct (map fst ?ps)" by simp
  have h2: "set (map fst ?ps) \<inter> fst ` set (es_index ?st) = {}" by simp
  have h3: "set (map fst ?ps) \<inter> set (offset2ids ?st) = {}" by simp
  have h4: "length (offset2ids ?st) = es_len ?st" by (simp add: es_len_def)
  have h5: "distinct (offset2ids ?st)" by simp
  from extend_appends_ids [OF h1 h2 h3 h4 h5, of "\<lambda>e. e"
      "\<lparr>to_base64 = (\<lambda>d. d), from_base64 = (\<lambda>b. b)\<rparr>"]
  obtain st' where "extend (\<lambda>e. e) \<lparr>to_base64 = (\<lambda>d. d), from_base64 = (\<lambda>b. b)\<rparr>
        (map (\<lambda>(i, a). PDoc i a) ?ps) ?st = Inr st'"
    and "offset2ids st' = offset2ids ?st @ map fst ?ps"
    by blast
  then show ?thesis
    using h1 h2 h3 by (simp add: extend_def send_requests_def Let_def)
qed

end
